theory Spec2Isabelle
  imports Complex_Main
begin

section \<open>Skin model (engine/skins.ts)\<close>

text \<open>
  JavaScript strings are modelled as \<^typ>\<open>string\<close>: the bytes of their UTF-8 text.
  All colour values, preset keys and terminal names of the program are ASCII.
  A JavaScript \<open>number\<close> is modelled as an exact rational: the program only stores the
  short decimal literals of the presets and never computes with them, and rounding a
  decimal to the nearest double is monotone and fixes \<open>0\<close> and \<open>1\<close>, so every order
  comparison with \<open>0\<close> and \<open>1\<close> is the same on both.
\<close>

type_synonym number = rat

datatype EffectType =
    crt_scanlines
  | crt_curvature
  | crt_flicker
  | phosphor_glow
  | phosphor_persistence
  | shake
  | animated_bg
  | color_shift
  | vignette
  | noise

text \<open>\<open>params\<close> is the object literal \<open>Partial<Record<string, number>>\<close>, in source order.\<close>

record VisualEffect =
  type :: EffectType
  intensity :: number
  params :: "(string \<times> number) list"

text \<open>The optional 16-colour palette of a colour scheme: a fixed-shape object.\<close>

record ANSI16 =
  black :: string
  red :: string
  green :: string
  yellow :: string
  blue :: string
  purple :: string
  cyan :: string
  white :: string
  brightBlack :: string
  brightRed :: string
  brightGreen :: string
  brightYellow :: string
  brightBlue :: string
  brightPurple :: string
  brightCyan :: string
  brightWhite :: string

record ColorScheme =
  background :: string
  foreground :: string
  accent :: string
  glow :: string
  palette :: "ANSI16 option"

datatype Quality = low | medium | high

record PerformanceConfig =
  gpuAcceleration :: bool
  targetFps :: number
  quality :: Quality

record SkinConfig =
  name :: string
  effects :: "VisualEffect list"
  colors :: ColorScheme
  performance :: PerformanceConfig

text \<open>
  \<open>Partial<SkinConfig>\<close>: every field may be absent (\<open>undefined\<close>), which is \<open>None\<close>.
\<close>

record PartialSkinConfig =
  name_opt :: "string option"
  effects_opt :: "VisualEffect list option"
  colors_opt :: "ColorScheme option"
  performance_opt :: "PerformanceConfig option"

text \<open>
  JavaScript's \<open>x || d\<close> on an optional field: \<open>d\<close> when \<open>x\<close> is absent or falsy.
  Of the values the four fields can hold only the empty string is falsy: arrays and
  objects are always truthy.
\<close>

definition or_default :: "('a \<Rightarrow> bool) \<Rightarrow> 'a option \<Rightarrow> 'a \<Rightarrow> 'a" where
  "or_default truthy x d = (case x of None \<Rightarrow> d | Some v \<Rightarrow> if truthy v then v else d)"

definition truthy_string :: "string \<Rightarrow> bool" where
  "truthy_string s = (s \<noteq> [])"

definition truthy_object :: "'a \<Rightarrow> bool" where
  "truthy_object x = True"

definition createSkin :: "PartialSkinConfig \<Rightarrow> SkinConfig" where
  "createSkin config = \<lparr>
     name = or_default truthy_string (name_opt config) ''Default'',
     effects = or_default truthy_object (effects_opt config) [],
     colors = or_default truthy_object (colors_opt config) \<lparr>
       background = ''#0D0208'',
       foreground = ''#00FF41'',
       accent = ''#008F11'',
       glow = ''#00FF41'',
       palette = None\<rparr>,
     performance = or_default truthy_object (performance_opt config) \<lparr>
       gpuAcceleration = True,
       targetFps = 60,
       quality = high\<rparr>\<rparr>"

subsection \<open>Pre-defined skin configurations\<close>

text \<open>Each preset is a zero-argument producer \<open>() => createSkin({...})\<close>.\<close>

text \<open>Classic green phosphor CRT\<close>

definition phosphor :: "unit \<Rightarrow> SkinConfig" where
  "phosphor u = createSkin \<lparr>
     name_opt = Some ''Phosphor CRT'',
     effects_opt = Some [
       \<lparr>type = crt_scanlines, intensity = 0.4, params = [(''lineSpacing'', 2)]\<rparr>,
       \<lparr>type = phosphor_glow, intensity = 0.6, params = [(''radius'', 3), (''falloff'', 0.5)]\<rparr>,
       \<lparr>type = phosphor_persistence, intensity = 0.3, params = [(''decay'', 0.1)]\<rparr>,
       \<lparr>type = crt_flicker, intensity = 0.1, params = [(''frequency'', 0.1)]\<rparr>,
       \<lparr>type = vignette, intensity = 0.5, params = [(''radius'', 0.8)]\<rparr>],
     colors_opt = Some \<lparr>
       background = ''#0D0208'',
       foreground = ''#00FF41'',
       accent = ''#008F11'',
       glow = ''#00FF41'',
       palette = Some \<lparr>
         black = ''#0D0208'',
         red = ''#FF3333'',
         green = ''#00FF41'',
         yellow = ''#CCFF00'',
         blue = ''#008F11'',
         purple = ''#FF00FF'',
         cyan = ''#00FFFF'',
         white = ''#00FF41'',
         brightBlack = ''#1A1A1A'',
         brightRed = ''#FF6666'',
         brightGreen = ''#66FF66'',
         brightYellow = ''#FFFF66'',
         brightBlue = ''#66FF66'',
         brightPurple = ''#FF66FF'',
         brightCyan = ''#66FFFF'',
         brightWhite = ''#66FF66''\<rparr>\<rparr>,
     performance_opt = None\<rparr>"

text \<open>Amber monochrome\<close>

definition amber :: "unit \<Rightarrow> SkinConfig" where
  "amber u = createSkin \<lparr>
     name_opt = Some ''Amber Monochrome'',
     effects_opt = Some [
       \<lparr>type = crt_scanlines, intensity = 0.3, params = [(''lineSpacing'', 2)]\<rparr>,
       \<lparr>type = phosphor_glow, intensity = 0.5, params = [(''radius'', 2), (''falloff'', 0.6)]\<rparr>,
       \<lparr>type = crt_flicker, intensity = 0.05, params = [(''frequency'', 0.05)]\<rparr>,
       \<lparr>type = vignette, intensity = 0.4, params = [(''radius'', 0.9)]\<rparr>],
     colors_opt = Some \<lparr>
       background = ''#1A0F00'',
       foreground = ''#FFB000'',
       accent = ''#FF8C00'',
       glow = ''#FFB000'',
       palette = Some \<lparr>
         black = ''#1A0F00'',
         red = ''#FF6600'',
         green = ''#FFB000'',
         yellow = ''#FFCC00'',
         blue = ''#994400'',
         purple = ''#FF8800'',
         cyan = ''#FFAA00'',
         white = ''#FFB000'',
         brightBlack = ''#332200'',
         brightRed = ''#FF8800'',
         brightGreen = ''#FFCD00'',
         brightYellow = ''#FFDD66'',
         brightBlue = ''#AA6600'',
         brightPurple = ''#FF9900'',
         brightCyan = ''#FFDD88'',
         brightWhite = ''#FFEE99''\<rparr>\<rparr>,
     performance_opt = None\<rparr>"

text \<open>White LCD style\<close>

definition lcd :: "unit \<Rightarrow> SkinConfig" where
  "lcd u = createSkin \<lparr>
     name_opt = Some ''LCD Display'',
     effects_opt = Some [
       \<lparr>type = crt_scanlines, intensity = 0.2, params = [(''lineSpacing'', 1)]\<rparr>,
       \<lparr>type = phosphor_glow, intensity = 0.3, params = [(''radius'', 1), (''falloff'', 0.8)]\<rparr>,
       \<lparr>type = color_shift, intensity = 0.1, params = [(''shift'', 0.02)]\<rparr>,
       \<lparr>type = vignette, intensity = 0.2, params = [(''radius'', 0.95)]\<rparr>],
     colors_opt = Some \<lparr>
       background = ''#0A0A0A'',
       foreground = ''#E8E8E8'',
       accent = ''#A0A0A0'',
       glow = ''#FFFFFF'',
       palette = Some \<lparr>
         black = ''#0A0A0A'',
         red = ''#FF4444'',
         green = ''#44FF44'',
         yellow = ''#FFFF44'',
         blue = ''#4444FF'',
         purple = ''#FF44FF'',
         cyan = ''#44FFFF'',
         white = ''#E8E8E8'',
         brightBlack = ''#333333'',
         brightRed = ''#FF8888'',
         brightGreen = ''#88FF88'',
         brightYellow = ''#FFFF88'',
         brightBlue = ''#8888FF'',
         brightPurple = ''#FF88FF'',
         brightCyan = ''#88FFFF'',
         brightWhite = ''#FFFFFF''\<rparr>\<rparr>,
     performance_opt = None\<rparr>"

text \<open>Retro purple cyber\<close>

definition cyber :: "unit \<Rightarrow> SkinConfig" where
  "cyber u = createSkin \<lparr>
     name_opt = Some ''Cyber Purple'',
     effects_opt = Some [
       \<lparr>type = crt_scanlines, intensity = 0.35, params = [(''lineSpacing'', 2)]\<rparr>,
       \<lparr>type = phosphor_glow, intensity = 0.7, params = [(''radius'', 4), (''falloff'', 0.4)]\<rparr>,
       \<lparr>type = crt_flicker, intensity = 0.08, params = [(''frequency'', 0.08)]\<rparr>,
       \<lparr>type = animated_bg, intensity = 0.3, params = [(''speed'', 0.5)]\<rparr>,
       \<lparr>type = noise, intensity = 0.05, params = [(''amount'', 0.02)]\<rparr>],
     colors_opt = Some \<lparr>
       background = ''#0D0D1A'',
       foreground = ''#B388FF'',
       accent = ''#7C4DFF'',
       glow = ''#E040FB'',
       palette = Some \<lparr>
         black = ''#0D0D1A'',
         red = ''#FF0055'',
         green = ''#00FF66'',
         yellow = ''#FFFF00'',
         blue = ''#0085FF'',
         purple = ''#B388FF'',
         cyan = ''#00FFFF'',
         white = ''#E0E0FF'',
         brightBlack = ''#2A2A3A'',
         brightRed = ''#FF4488'',
         brightGreen = ''#66FF99'',
         brightYellow = ''#FFFF66'',
         brightBlue = ''#6699FF'',
         brightPurple = ''#D199FF'',
         brightCyan = ''#99FFFF'',
         brightWhite = ''#FFFFFF''\<rparr>\<rparr>,
     performance_opt = None\<rparr>"

text \<open>Blue-tinted terminal\<close>

definition terminal :: "unit \<Rightarrow> SkinConfig" where
  "terminal u = createSkin \<lparr>
     name_opt = Some ''Classic Terminal'',
     effects_opt = Some [
       \<lparr>type = crt_scanlines, intensity = 0.25, params = [(''lineSpacing'', 2)]\<rparr>,
       \<lparr>type = phosphor_glow, intensity = 0.4, params = [(''radius'', 2), (''falloff'', 0.5)]\<rparr>,
       \<lparr>type = vignette, intensity = 0.3, params = [(''radius'', 0.85)]\<rparr>],
     colors_opt = Some \<lparr>
       background = ''#0C0C14'',
       foreground = ''#4AF626'',
       accent = ''#2AAE22'',
       glow = ''#4AF626'',
       palette = Some \<lparr>
         black = ''#0C0C14'',
         red = ''#CC3333'',
         green = ''#4AF626'',
         yellow = ''#CCFF00'',
         blue = ''#0066CC'',
         purple = ''#FF00FF'',
         cyan = ''#00CCFF'',
         white = ''#4AF626'',
         brightBlack = ''#1A1A2A'',
         brightRed = ''#FF6666'',
         brightGreen = ''#88FF88'',
         brightYellow = ''#FFFF66'',
         brightBlue = ''#6699FF'',
         brightPurple = ''#FF66FF'',
         brightCyan = ''#66FFFF'',
         brightWhite = ''#99FF99''\<rparr>\<rparr>,
     performance_opt = None\<rparr>"

text \<open>Puncore neon theme\<close>

definition puncore :: "unit \<Rightarrow> SkinConfig" where
  "puncore u = createSkin \<lparr>
     name_opt = Some ''Puncore Neon'',
     effects_opt = Some [
       \<lparr>type = crt_scanlines, intensity = 0.1, params = [(''lineSpacing'', 1)]\<rparr>,
       \<lparr>type = phosphor_glow, intensity = 0.5, params = [(''radius'', 3), (''falloff'', 0.4)]\<rparr>,
       \<lparr>type = vignette, intensity = 0.15, params = [(''radius'', 0.95)]\<rparr>],
     colors_opt = Some \<lparr>
       background = ''#575757'',
       foreground = ''#858585'',
       accent = ''#FF5700'',
       glow = ''#8500FF'',
       palette = Some \<lparr>
         black = ''#575757'',
         red = ''#FF0085'',
         green = ''#00FF00'',
         yellow = ''#FF5700'',
         blue = ''#0085FF'',
         purple = ''#8500FF'',
         cyan = ''#0085FF'',
         white = ''#858585'',
         brightBlack = ''#313131'',
         brightRed = ''#FF0085'',
         brightGreen = ''#00FF00'',
         brightYellow = ''#FF8500'',
         brightBlue = ''#0085FF'',
         brightPurple = ''#8500FF'',
         brightCyan = ''#00FFFF'',
         brightWhite = ''#FFFFFF''\<rparr>\<rparr>,
     performance_opt = None\<rparr>"

text \<open>The object literal \<open>PRESET_SKINS\<close>, its own properties in insertion order.\<close>

definition PRESET_SKINS :: "(string \<times> (unit \<Rightarrow> SkinConfig)) list" where
  "PRESET_SKINS = [
     (''phosphor'', phosphor),
     (''amber'', amber),
     (''lcd'', lcd),
     (''cyber'', cyber),
     (''terminal'', terminal),
     (''puncore'', puncore)]"


section \<open>String helpers\<close>

text \<open>\<open>String.prototype.startsWith\<close> and \<open>String.prototype.includes\<close>.\<close>

fun startsWith :: "string \<Rightarrow> string \<Rightarrow> bool" where
  "startsWith s [] = True"
| "startsWith [] (p # ps) = False"
| "startsWith (c # cs) (p # ps) = (c = p \<and> startsWith cs ps)"

fun includes_str :: "string \<Rightarrow> string \<Rightarrow> bool" where
  "includes_str [] needle = (needle = [])"
| "includes_str (c # cs) needle = (startsWith (c # cs) needle \<or> includes_str cs needle)"

text \<open>\<open>Array.prototype.join\<close> with a separator.\<close>

fun join_with :: "string \<Rightarrow> string list \<Rightarrow> string" where
  "join_with sep [] = []"
| "join_with sep [x] = x"
| "join_with sep (x # y # ys) = x @ sep @ join_with sep (y # ys)"

text \<open>A natural number as a template literal prints it: decimal digits.\<close>

definition digit :: "nat \<Rightarrow> char" where
  "digit d = ''0123456789'' ! (d mod 10)"

function number_string :: "nat \<Rightarrow> string" where
  "number_string n = (if n < 10 then [digit n] else number_string (n div 10) @ [digit n])"
  by pat_completeness auto
termination
  by (relation "measure id") auto

section \<open>The colour pattern\<close>

text \<open>
  The pattern \<open>^#[0-9A-Fa-f]{6}$\<close> of the specification: a \<open>#\<close> followed by exactly six
  hexadecimal digits and nothing else.
\<close>

definition isHexDigit :: "char \<Rightarrow> bool" where
  "isHexDigit c = (c \<in> set ''0123456789ABCDEFabcdef'')"

definition matchesHexColor :: "string \<Rightarrow> bool" where
  "matchesHexColor s =
     (case s of [] \<Rightarrow> False | c # cs \<Rightarrow> c = CHR ''#'' \<and> length cs = 6 \<and> list_all isHexDigit cs)"

text \<open>The 16 slots of a palette in the fixed order: the 8 base colours, then the 8 bright ones.\<close>

definition ansi16 :: "ANSI16 \<Rightarrow> string list" where
  "ansi16 p = [black p, red p, green p, yellow p, blue p, purple p, cyan p, white p,
     brightBlack p, brightRed p, brightGreen p, brightYellow p, brightBlue p,
     brightPurple p, brightCyan p, brightWhite p]"


section \<open>Adapters (engine/adapters)\<close>

text \<open>
  The four adapter modules are imported by the command line but their files are not among
  the sources. They are modelled from the specification (section 4.2): one pure function
  from a skin to a text, or to the one error the core may raise.
\<close>

text \<open>
  Modelled from the spec: the error of the core (the adapters' files are missing), raised
  when a consumed colour does not match the pattern.
\<close>

datatype error = MalformedColorError

text \<open>
  Modelled from the spec: the closed set of the four adapters (their files are missing),
  for WezTerm, Alacritty, Kitty and Windows Terminal in this order.
\<close>

datatype adapter = ScriptAdapter | YamlAdapter | FlatAdapter | JsonSchemeAdapter

text \<open>
  Modelled from the spec: the colour values an adapter consumes (the adapters' files are
  missing). Every format is built from \<open>background\<close>, \<open>foreground\<close> and the 16 palette
  slots; without a palette the slots are derived from \<open>background\<close>, \<open>foreground\<close> and
  \<open>accent\<close>. No format rule of the specification reads \<open>glow\<close>.
\<close>

definition consumed_colors :: "ColorScheme \<Rightarrow> string list" where
  "consumed_colors c =
     (case palette c of
        Some p \<Rightarrow> background c # foreground c # ansi16 p
      | None \<Rightarrow> [background c, foreground c, accent c])"

text \<open>
  Modelled from the spec: the 16 slots an adapter emits (the adapters' files are missing).
  The specification asks for one fixed, format-independent derivation rule for a skin
  without a palette and leaves the rule itself open, so it is the parameter \<open>derive\<close>,
  applied to \<open>background\<close>, \<open>foreground\<close> and \<open>accent\<close>.
\<close>

definition palette_slots :: "(string \<Rightarrow> string \<Rightarrow> string \<Rightarrow> ANSI16) \<Rightarrow> ColorScheme \<Rightarrow> string list" where
  "palette_slots derive c =
     (case palette c of
        Some p \<Rightarrow> ansi16 p
      | None \<Rightarrow> ansi16 (derive (background c) (foreground c) (accent c)))"

text \<open>
  Modelled from the spec: the validation every adapter applies before it emits anything
  (the adapters' files are missing): each consumed colour must match the pattern.
\<close>

definition validate_colors :: "ColorScheme \<Rightarrow> error + unit" where
  "validate_colors c =
     (if list_all matchesHexColor (consumed_colors c) then Inr () else Inl MalformedColorError)"

text \<open>A document is its lines, each ended by a newline.\<close>

definition unlines :: "string list \<Rightarrow> string" where
  "unlines ls = concat (map (\<lambda>l. l @ [CHR 0x0A]) ls)"

text \<open>
  Modelled from the spec: one entry of the \<open>ansi\<close> block of the script format, a quoted
  colour (the WezTerm adapter's file is missing).
\<close>

definition lua_entry :: "string \<Rightarrow> string" where
  "lua_entry c = ''      '' @ [CHR 0x27] @ c @ [CHR 0x27] @ '',''"

text \<open>
  Modelled from the spec: one field of the \<open>colors\<close> block of the script format (the
  WezTerm adapter's file is missing).
\<close>

definition lua_field :: "string \<Rightarrow> string \<Rightarrow> string" where
  "lua_field k c = ''    '' @ k @ '' = '' @ [CHR 0x27] @ c @ [CHR 0x27] @ '',''"

text \<open>
  Modelled from the spec: the script (Lua-like) format (the WezTerm adapter's file is
  missing). A configuration-table literal with a \<open>colors\<close> block (foreground, background,
  the cursor reusing the pair, the selection reusing it inverted) and an \<open>ansi\<close> block of
  the 16 slots in the fixed order, then the trailer \<open>return config\<close>.
\<close>

definition script_lines :: "string \<Rightarrow> string \<Rightarrow> string list \<Rightarrow> string list" where
  "script_lines bg fg slots =
     [''local config = {'',
      ''  colors = {'',
      lua_field ''foreground'' fg,
      lua_field ''background'' bg,
      lua_field ''cursor_fg'' fg,
      lua_field ''cursor_bg'' bg,
      lua_field ''selection_fg'' bg,
      lua_field ''selection_bg'' fg,
      ''    ansi = {'']
     @ map lua_entry slots @
     [''    },'',
      ''  },'',
      ''}'',
      ''return config'']"

text \<open>
  Modelled from the spec: the emulator's key names of the 8 colours of a YAML block (the
  Alacritty adapter's file is missing).
\<close>

definition yaml_names :: "string list" where
  "yaml_names = [''black'', ''red'', ''green'', ''yellow'', ''blue'', ''magenta'', ''cyan'', ''white'']"

text \<open>
  Modelled from the spec: one nested entry of the YAML-like format, a key and a quoted
  colour (the Alacritty adapter's file is missing).
\<close>

definition yaml_entry :: "string \<times> string \<Rightarrow> string" where
  "yaml_entry kc = ''    '' @ fst kc @ '': '' @ [CHR 0x27] @ snd kc @ [CHR 0x27]"

text \<open>
  Modelled from the spec: the YAML-like format (the Alacritty adapter's file is missing).
  Top-level \<open>colors:\<close> with \<open>primary:\<close>, \<open>cursor:\<close>, \<open>selection:\<close>, \<open>normal:\<close> (the 8 base
  slots) and \<open>bright:\<close> (the 8 bright slots), under the emulator's key names.
\<close>

definition yaml_lines :: "string \<Rightarrow> string \<Rightarrow> string list \<Rightarrow> string list" where
  "yaml_lines bg fg slots =
     [''colors:'',
      ''  primary:'',
      yaml_entry (''background'', bg),
      yaml_entry (''foreground'', fg),
      ''  cursor:'',
      yaml_entry (''text'', bg),
      yaml_entry (''cursor'', fg),
      ''  selection:'',
      yaml_entry (''text'', bg),
      yaml_entry (''background'', fg),
      ''  normal:'']
     @ map yaml_entry (zip yaml_names (take 8 slots)) @
     [''  bright:'']
     @ map yaml_entry (zip yaml_names (drop 8 slots))"

text \<open>
  Modelled from the spec: one line \<open>key value\<close> of the flat format (the Kitty adapter's
  file is missing).
\<close>

definition flat_entry :: "string \<times> string \<Rightarrow> string" where
  "flat_entry kc = fst kc @ '' '' @ snd kc"

text \<open>
  Modelled from the spec: the flat key-value format (the Kitty adapter's file is missing).
  Lines \<open>key value\<close>: \<open>background\<close>, \<open>foreground\<close>, \<open>cursor\<close>, \<open>selection_background\<close>,
  \<open>selection_foreground\<close>, then \<open>color0\<close> to \<open>color15\<close> in the fixed slot order.
\<close>

definition flat_lines :: "string \<Rightarrow> string \<Rightarrow> string list \<Rightarrow> string list" where
  "flat_lines bg fg slots =
     map flat_entry
       ([(''background'', bg),
         (''foreground'', fg),
         (''cursor'', fg),
         (''selection_background'', fg),
         (''selection_foreground'', bg)]
        @ zip (map (\<lambda>i. ''color'' @ number_string i) [0..<16]) slots)"

text \<open>
  Modelled from the spec: the 16 colour keys of a scheme object, in the fixed slot order
  (the Windows Terminal adapter's file is missing).
\<close>

definition json_names :: "string list" where
  "json_names = [''black'', ''red'', ''green'', ''yellow'', ''blue'', ''purple'', ''cyan'', ''white'',
     ''brightBlack'', ''brightRed'', ''brightGreen'', ''brightYellow'', ''brightBlue'',
     ''brightPurple'', ''brightCyan'', ''brightWhite'']"

text \<open>
  Modelled from the spec: one field of the scheme object, a quoted key and a quoted colour
  (the Windows Terminal adapter's file is missing).
\<close>

definition json_entry :: "string \<times> string \<Rightarrow> string" where
  "json_entry kc = ''      '' @ [CHR 0x22] @ fst kc @ [CHR 0x22] @ '': '' @ [CHR 0x22] @ snd kc @ [CHR 0x22]"

text \<open>
  Modelled from the spec: the JSON scheme format (the Windows Terminal adapter's file is
  missing). A document with a \<open>"schemes"\<close> array of one scheme object with the fields
  \<open>"background"\<close>, \<open>"foreground"\<close> and the 16 keys \<open>"black"\<close> to \<open>"brightWhite"\<close>.
\<close>

definition json_lines :: "string \<Rightarrow> string \<Rightarrow> string list \<Rightarrow> string list" where
  "json_lines bg fg slots =
     [''{'',
      ''  '' @ [CHR 0x22] @ ''schemes'' @ [CHR 0x22] @ '': ['',
      ''    {'',
      join_with ('','' @ [CHR 0x0A])
        (map json_entry ((''background'', bg) # (''foreground'', fg) # zip json_names slots)),
      ''    }'',
      ''  ]'',
      ''}'']"

text \<open>
  Modelled from the spec: the lines an adapter emits for its format (the adapters' files
  are missing).
\<close>

definition emit :: "adapter \<Rightarrow> string \<Rightarrow> string \<Rightarrow> string list \<Rightarrow> string list" where
  "emit A bg fg slots =
     (case A of
        ScriptAdapter \<Rightarrow> script_lines bg fg slots
      | YamlAdapter \<Rightarrow> yaml_lines bg fg slots
      | FlatAdapter \<Rightarrow> flat_lines bg fg slots
      | JsonSchemeAdapter \<Rightarrow> json_lines bg fg slots)"

text \<open>
  Modelled from the spec: the public operation \<open>render(skin)\<close> of the four adapters (their
  files are missing): validate first, then emit the whole document; a malformed colour
  yields the error and no text. \<open>render_lines\<close> is the document as its lines.
\<close>

definition render_lines :: "(string \<Rightarrow> string \<Rightarrow> string \<Rightarrow> ANSI16) \<Rightarrow> adapter \<Rightarrow> SkinConfig \<Rightarrow> error + string list" where
  "render_lines derive A skin =
     (case validate_colors (colors skin) of
        Inl e \<Rightarrow> Inl e
      | Inr _ \<Rightarrow>
          Inr (emit A (background (colors skin)) (foreground (colors skin))
                 (palette_slots derive (colors skin))))"

text \<open>
  Modelled from the spec: what a call of an adapter could read besides its argument (the
  adapters' files are missing): the clock, the values the random source returns, the
  variables of the process and the locale.
\<close>

record environment =
  clock :: nat
  random_values :: "rat list"
  env_variables :: "(string \<times> string) list"
  system_locale :: string

text \<open>
  Modelled from the spec: \<open>render(skin)\<close> called in an environment, as the text of the
  document (the adapters' files are missing). The specification builds the text from the
  skin: no timestamp, no random value and no formatting that depends on the environment.
\<close>

definition render :: "environment \<Rightarrow> (string \<Rightarrow> string \<Rightarrow> string \<Rightarrow> ANSI16) \<Rightarrow> adapter \<Rightarrow> SkinConfig \<Rightarrow> error + string" where
  "render env derive A skin = map_sum id unlines (render_lines derive A skin)"

subsection \<open>Reading a rendered document\<close>

text \<open>
  The lines of a block of a rendered document: those after the line \<open>header\<close>, up to the
  first line that no longer satisfies \<open>entry\<close>.
\<close>

definition block_entries :: "string \<Rightarrow> (string \<Rightarrow> bool) \<Rightarrow> string list \<Rightarrow> string list" where
  "block_entries header entry ls = takeWhile entry (drop 1 (dropWhile (\<lambda>l. l \<noteq> header) ls))"

text \<open>The lines of a text: it is split at every newline.\<close>

definition lines_of :: "string \<Rightarrow> string list" where
  "lines_of txt =
     rev (map rev (fold (\<lambda>c acc. if c = CHR 0x0A then [] # acc
                                else (case acc of [] \<Rightarrow> [[c]] | l # ls \<Rightarrow> (c # l) # ls)) txt [[]]))"

text \<open>\<open>String.prototype.endsWith\<close>.\<close>

definition endsWith :: "string \<Rightarrow> string \<Rightarrow> bool" where
  "endsWith s suffix =
     (length suffix \<le> length s \<and> drop (length s - length suffix) s = suffix)"

text \<open>An entry line of a table of the script format: indented and quoted.\<close>

definition is_lua_entry :: "string \<Rightarrow> bool" where
  "is_lua_entry l = startsWith l (''      '' @ [CHR 0x27])"

text \<open>An entry line of a nested block of the YAML-like format: indented by four.\<close>

definition is_yaml_entry :: "string \<Rightarrow> bool" where
  "is_yaml_entry l = startsWith l ''    ''"

section \<open>Command line (cli.ts)\<close>

subsection \<open>What the command line takes from its surroundings\<close>

text \<open>
  \<open>String.prototype.toLowerCase\<close> and \<open>toUpperCase\<close> are functions of the JavaScript
  runtime: they map the letters of every script and can change the length of a text.
  \<open>path.join\<close> and \<open>process.cwd()\<close> are Node's. The command line is modelled for any
  such functions: they are the fields of this record.
\<close>

record runtime =
  toLowerCase :: "string \<Rightarrow> string"
  toUpperCase :: "string \<Rightarrow> string"
  path_join :: "string \<Rightarrow> string \<Rightarrow> string"
  cwd :: string

text \<open>
  A value that the command line can hold in \<open>skin\<close> or \<open>skinConfig\<close>: a skin that a preset
  producer returned, or what a call of a member inherited from \<open>Object.prototype\<close>
  returns (an empty object, a string, a boolean).
\<close>

datatype js_value = Skin SkinConfig | EmptyObject | StringValue string | BooleanValue bool

text \<open>
  An exception: the error of the core, a \<open>TypeError\<close> of the runtime, or any other, by
  its message.
\<close>

datatype exception = CoreError error | TypeError | OtherError string

text \<open>
  The adapters are imports of \<open>cli.ts\<close>; the command line is modelled for any four of
  them. An adapter is called with the value the command line holds and returns its text
  or raises.
\<close>

record adapters =
  generateWezTermLua :: "js_value \<Rightarrow> exception + string"
  generateAlacrittyYaml :: "js_value \<Rightarrow> exception + string"
  generateKittyConfig :: "js_value \<Rightarrow> exception + string"
  generateWindowsTerminalJson :: "js_value \<Rightarrow> exception + string"

definition VALID_TERMINALS :: "string list" where
  "VALID_TERMINALS = [''wezterm'', ''alacritty'', ''kitty'', ''windows-terminal'']"

text \<open>
  \<open>PRESET_SKINS[key]\<close> is a property read on a plain object literal: it finds the object's
  own properties and then those it inherits from \<open>Object.prototype\<close>, which are all
  truthy, and is \<open>undefined\<close> for every other key.
\<close>

definition Object_prototype_keys :: "string list" where
  "Object_prototype_keys = [''constructor'', ''__defineGetter__'', ''__defineSetter__'',
     ''hasOwnProperty'', ''__lookupGetter__'', ''__lookupSetter__'', ''isPrototypeOf'',
     ''propertyIsEnumerable'', ''toString'', ''valueOf'', ''__proto__'', ''toLocaleString'']"

datatype member = Own "unit \<Rightarrow> SkinConfig" | Inherited string | Undefined

definition PRESET_SKINS_get :: "string \<Rightarrow> member" where
  "PRESET_SKINS_get key =
     (case map_of PRESET_SKINS key of
        Some skinFn \<Rightarrow> Own skinFn
      | None \<Rightarrow> if key \<in> set Object_prototype_keys then Inherited key else Undefined)"

text \<open>
  The call \<open>skinFn()\<close> of what the property read found, with no arguments and no receiver.
  A preset producer returns its skin. Of the inherited members, \<open>constructor\<close> is
  \<open>Object\<close> and returns an empty object, \<open>toString\<close> returns \<open>[object Undefined]\<close>,
  \<open>isPrototypeOf\<close> returns \<open>false\<close>; the others convert the missing receiver to an
  object and raise a \<open>TypeError\<close>, and so does the call of \<open>__proto__\<close> (an object) and
  of \<open>undefined\<close>, which are not functions.
\<close>

definition call_member :: "member \<Rightarrow> exception + js_value" where
  "call_member m =
     (case m of
        Own skinFn \<Rightarrow> Inr (Skin (skinFn ()))
      | Inherited key \<Rightarrow>
          if key = ''constructor'' then Inr EmptyObject
          else if key = ''toString'' then Inr (StringValue ''[object Undefined]'')
          else if key = ''isPrototypeOf'' then Inr (BooleanValue False)
          else Inl TypeError
      | Undefined \<Rightarrow> Inl TypeError)"

text \<open>
  \<open>${value.name}\<close> in a template literal: the name of a skin; every other value has no
  property \<open>name\<close>, and \<open>undefined\<close> prints as that word.
\<close>

definition name_of :: "js_value \<Rightarrow> string" where
  "name_of v = (case v of Skin s \<Rightarrow> name s | _ \<Rightarrow> ''undefined'')"

text \<open>\<open>Object.keys(PRESET_SKINS)\<close>: the own keys in insertion order.\<close>

definition Object_keys :: "(string \<times> 'a) list \<Rightarrow> string list" where
  "Object_keys obj = map fst obj"

text \<open>
  What a command leaves behind when it ends: the arguments of its \<open>console.log\<close> calls, of
  its \<open>console.error\<close> calls, the files it wrote (path and content) and the exit code
  (\<open>process.exit(1)\<close>, or 0 when the action returns). File writes are taken to succeed.
  A command that ends in an exception it does not catch is that exception (\<open>Inl\<close>).
\<close>

record io =
  stdout :: "string list"
  stderr :: "string list"
  files :: "(string \<times> string) list"
  exit_code :: nat

type_synonym outcome = "exception + io"

text \<open>The options object of a command: an option that was not given is absent.\<close>

record options =
  opt_terminal :: "string option"
  opt_output :: "string option"
  opt_dryRun :: bool

text \<open>Truthiness of an optional string: given and not empty.\<close>

definition truthy :: "string option \<Rightarrow> bool" where
  "truthy x = (case x of None \<Rightarrow> False | Some s \<Rightarrow> s \<noteq> [])"

text \<open>The non-ASCII characters of the messages, as their UTF-8 bytes.\<close>

definition cross_mark :: string where
  "cross_mark = [CHR 0xE2, CHR 0x9D, CHR 0x8C]"

definition check_mark :: string where
  "check_mark = [CHR 0xE2, CHR 0x9C, CHR 0x85]"

definition artist_palette :: string where
  "artist_palette = [CHR 0xF0, CHR 0x9F, CHR 0x8E, CHR 0xA8]"

definition page_facing_up :: string where
  "page_facing_up = [CHR 0xF0, CHR 0x9F, CHR 0x93, CHR 0x84]"

definition magnifying_glass :: string where
  "magnifying_glass = [CHR 0xF0, CHR 0x9F, CHR 0x94, CHR 0x8D]"

definition box_line :: string where
  "box_line = [CHR 0xE2, CHR 0x94, CHR 0x80]"

definition right_arrow :: string where
  "right_arrow = [CHR 0xE2, CHR 0x86, CHR 0x92]"

definition EffectType_string :: "EffectType \<Rightarrow> string" where
  "EffectType_string t =
     (case t of
        crt_scanlines \<Rightarrow> ''crt-scanlines''
      | crt_curvature \<Rightarrow> ''crt-curvature''
      | crt_flicker \<Rightarrow> ''crt-flicker''
      | phosphor_glow \<Rightarrow> ''phosphor-glow''
      | phosphor_persistence \<Rightarrow> ''phosphor-persistence''
      | shake \<Rightarrow> ''shake''
      | animated_bg \<Rightarrow> ''animated-bg''
      | color_shift \<Rightarrow> ''color-shift''
      | vignette \<Rightarrow> ''vignette''
      | noise \<Rightarrow> ''noise'')"

subsection \<open>The two rejections\<close>

definition unknown_skin :: "string \<Rightarrow> io" where
  "unknown_skin skinName = \<lparr>
     stdout = [''   Available: '' @ join_with '', '' (Object_keys PRESET_SKINS)],
     stderr = [cross_mark @ '' Unknown skin: '' @ skinName],
     files = [],
     exit_code = 1\<rparr>"

definition invalid_terminal :: "string \<Rightarrow> io" where
  "invalid_terminal terminal_arg = \<lparr>
     stdout = [''   Valid options: '' @ join_with '', '' VALID_TERMINALS],
     stderr = [cross_mark @ '' Invalid terminal: '' @ terminal_arg],
     files = [],
     exit_code = 1\<rparr>"

subsection \<open>The \<open>preview [skin]\<close> command\<close>

text \<open>The lines printed for one skin, before the optional terminal preview.\<close>

definition preview_summary :: "string \<Rightarrow> SkinConfig \<Rightarrow> string list" where
  "preview_summary skinName skin =
     [[CHR 0x0A] @ artist_palette @ '' '' @ name skin @ '' ('' @ skinName @ '')'',
      ''   Colors:'',
      ''     Background: '' @ background (colors skin),
      ''     Foreground: '' @ foreground (colors skin),
      ''     Accent:     '' @ accent (colors skin),
      ''     Glow:       '' @ glow (colors skin),
      ''   Effects: '' @ join_with '', '' (map (\<lambda>e. EffectType_string (type e)) (effects skin))]"

text \<open>The branch without a skin name: all skins with details.\<close>

definition preview_all :: "string list" where
  "preview_all =
     [[CHR 0x0A] @ artist_palette @ '' All Skins Preview:'' @ [CHR 0x0A]]
     @ concat (map (\<lambda>(name', skinFn).
         (let skin = skinFn () in
          [''  '' @ name' @ '':'',
           ''    Name:      '' @ name skin,
           ''    Colors:    '' @ background (colors skin) @ '' '' @ right_arrow @ '' ''
              @ foreground (colors skin),
           ''    Effects:   '' @ number_string (length (effects skin)) @ '' active''])) PRESET_SKINS)"

text \<open>
  With a skin name. A value that is not a skin has no \<open>colors\<close>: reading
  \<open>skin.colors.background\<close> for the summary raises a \<open>TypeError\<close>.
\<close>

definition preview :: "runtime \<Rightarrow> adapters \<Rightarrow> string option \<Rightarrow> options \<Rightarrow> outcome" where
  "preview rt ad skinName options =
     (if truthy skinName then
        (case PRESET_SKINS_get (the skinName) of
           Undefined \<Rightarrow> Inr (unknown_skin (the skinName))
         | skinFn \<Rightarrow>
             (case call_member skinFn of
                Inl e \<Rightarrow> Inl e
              | Inr (Skin skin) \<Rightarrow>
                  if truthy (opt_terminal options) then
                    (let terminal' = toLowerCase rt (the (opt_terminal options));
                         config =
                           (if terminal' = ''wezterm'' then generateWezTermLua ad (Skin skin)
                            else if terminal' = ''alacritty'' then generateAlacrittyYaml ad (Skin skin)
                            else if terminal' = ''windows-terminal''
                              then generateWindowsTerminalJson ad (Skin skin)
                            else generateKittyConfig ad (Skin skin))
                     in case config of
                          Inl e \<Rightarrow> Inl e
                        | Inr text \<Rightarrow> Inr \<lparr>
                            stdout = preview_summary (the skinName) skin
                              @ [[CHR 0x0A] @ page_facing_up @ '' ''
                                   @ toUpperCase rt (the (opt_terminal options)) @ '' Preview:'',
                                 concat (replicate 40 box_line),
                                 text,
                                 []],
                            stderr = [],
                            files = [],
                            exit_code = 0\<rparr>)
                  else Inr \<lparr>
                    stdout = preview_summary (the skinName) skin @ [[]],
                    stderr = [],
                    files = [],
                    exit_code = 0\<rparr>
              | Inr _ \<Rightarrow> Inl TypeError))
      else Inr \<lparr>stdout = preview_all @ [[]], stderr = [], files = [], exit_code = 0\<rparr>)"

subsection \<open>The \<open>generate <terminal> <skin>\<close> command\<close>

definition generate :: "runtime \<Rightarrow> adapters \<Rightarrow> string \<Rightarrow> string \<Rightarrow> options \<Rightarrow> outcome" where
  "generate rt ad terminal_arg skinName options =
     (if toLowerCase rt terminal_arg \<notin> set VALID_TERMINALS then Inr (invalid_terminal terminal_arg)
      else
        (case PRESET_SKINS_get skinName of
           Undefined \<Rightarrow> Inr (unknown_skin skinName)
         | skinFn \<Rightarrow>
             (case call_member skinFn of
                Inl e \<Rightarrow> Inl e
              | Inr skinConfig \<Rightarrow>
                  (let terminalType = toLowerCase rt terminal_arg;
                       config =
                         (if terminalType = ''wezterm'' then generateWezTermLua ad skinConfig
                          else if terminalType = ''alacritty'' then generateAlacrittyYaml ad skinConfig
                          else if terminalType = ''windows-terminal''
                            then generateWindowsTerminalJson ad skinConfig
                          else generateKittyConfig ad skinConfig)
                   in case config of
                        Inl e \<Rightarrow> Inl e
                      | Inr text \<Rightarrow>
                          if opt_dryRun options then Inr \<lparr>
                            stdout =
                              [[CHR 0x0A] @ magnifying_glass @ '' Dry Run - ''
                                 @ toUpperCase rt terminal_arg
                                 @ '' config for '' @ [CHR 0x22] @ name_of skinConfig @ [CHR 0x22]
                                 @ '':'' @ [CHR 0x0A],
                               text,
                               [CHR 0x0A] @ check_mark @ '' Would output to: ''
                                 @ (if truthy (opt_output options) then the (opt_output options)
                                    else ''stdout'')],
                            stderr = [],
                            files = [],
                            exit_code = 0\<rparr>
                          else if truthy (opt_output options) then
                            (let outputPath =
                                   (if startsWith (the (opt_output options)) ''/''
                                    then the (opt_output options)
                                    else path_join rt (cwd rt) (the (opt_output options)))
                             in Inr \<lparr>
                                  stdout = [check_mark @ '' Config written to '' @ outputPath],
                                  stderr = [],
                                  files = [(outputPath, text)],
                                  exit_code = 0\<rparr>)
                          else Inr \<lparr>stdout = [text], stderr = [], files = [], exit_code = 0\<rparr>))))"

subsection \<open>The \<open>apply <terminal>\<close> command\<close>

text \<open>
  \<open>answer\<close> is the skin the interactive prompt returns; what the property read finds for
  it is called without a guard.
\<close>

definition apply_skin :: "runtime \<Rightarrow> adapters \<Rightarrow> string \<Rightarrow> string \<Rightarrow> options \<Rightarrow> outcome" where
  "apply_skin rt ad terminal_arg answer options =
     (if toLowerCase rt terminal_arg \<notin> set VALID_TERMINALS then Inr (invalid_terminal terminal_arg)
      else
        (case call_member (PRESET_SKINS_get answer) of
           Inl e \<Rightarrow> Inl e
         | Inr skinConfig \<Rightarrow>
             (let terminalType = toLowerCase rt terminal_arg;
                  config =
                    (if terminalType = ''wezterm'' then
                       map_sum id (\<lambda>c. ''// WezTerm config - copy to ~/.config/wezterm/retro_skin.lua''
                                     @ [CHR 0x0A, CHR 0x0A] @ c) (generateWezTermLua ad skinConfig)
                     else if terminalType = ''alacritty'' then
                       map_sum id (\<lambda>c. ''# Alacritty config - copy to ~/.config/alacritty/retro_skin.yml''
                                     @ [CHR 0x0A, CHR 0x0A] @ c) (generateAlacrittyYaml ad skinConfig)
                     else if terminalType = ''windows-terminal'' then
                       map_sum id (\<lambda>c. ''// Windows Terminal config - add scheme to settings.json''
                                     @ [CHR 0x0A, CHR 0x0A] @ c) (generateWindowsTerminalJson ad skinConfig)
                     else
                       map_sum id (\<lambda>c. ''# Kitty config - copy to ~/.config/kitty/retro_skin.conf''
                                     @ [CHR 0x0A, CHR 0x0A] @ c) (generateKittyConfig ad skinConfig))
              in case config of
                   Inl e \<Rightarrow> Inl e
                 | Inr text \<Rightarrow>
                     if truthy (opt_output options) then
                       (let outputPath = path_join rt (cwd rt) (the (opt_output options))
                        in Inr \<lparr>
                             stdout = [check_mark @ '' Config written to '' @ outputPath],
                             stderr = [],
                             files = [(outputPath, text)],
                             exit_code = 0\<rparr>)
                     else Inr \<lparr>
                       stdout = [[CHR 0x0A] @ page_facing_up @ '' Generated Config:'' @ [CHR 0x0A], text],
                       stderr = [],
                       files = [],
                       exit_code = 0\<rparr>)))"

subsection \<open>Reading an outcome\<close>

text \<open>
  A command exits with a code other than 0 when it calls \<open>process.exit(1)\<close>, and Node
  ends with code 1 on an exception that is not caught.
\<close>

definition exits_nonzero :: "outcome \<Rightarrow> bool" where
  "exits_nonzero r = (case r of Inl _ \<Rightarrow> True | Inr x \<Rightarrow> exit_code x \<noteq> 0)"

text \<open>The error text that the command itself printed contains the fragment.\<close>

definition error_text_contains :: "string \<Rightarrow> outcome \<Rightarrow> bool" where
  "error_text_contains fragment r =
     (case r of Inl _ \<Rightarrow> False | Inr x \<Rightarrow> list_ex (\<lambda>l. includes_str l fragment) (stderr x))"

definition prints :: "string \<Rightarrow> outcome \<Rightarrow> bool" where
  "prints text r = (case r of Inl _ \<Rightarrow> False | Inr x \<Rightarrow> text \<in> set (stdout x))"

subsection \<open>Instances for the examples\<close>

text \<open>
  Modelled from the spec: an adapter of the specification as an import of the command
  line (the adapters' files are missing). It renders a skin; any other value has no
  \<open>colors\<close> to read, which is a \<open>TypeError\<close>.
\<close>

definition spec_adapter ::
  "environment \<Rightarrow> (string \<Rightarrow> string \<Rightarrow> string \<Rightarrow> ANSI16) \<Rightarrow> adapter \<Rightarrow> js_value \<Rightarrow> exception + string" where
  "spec_adapter env derive A v =
     (case v of Skin skin \<Rightarrow> map_sum CoreError id (render env derive A skin) | _ \<Rightarrow> Inl TypeError)"

text \<open>
  Modelled from the spec: the four adapters of the specification as the imports of the
  command line (the adapters' files are missing).
\<close>

definition spec_adapters :: "environment \<Rightarrow> (string \<Rightarrow> string \<Rightarrow> string \<Rightarrow> ANSI16) \<Rightarrow> adapters" where
  "spec_adapters env derive = \<lparr>
     generateWezTermLua = spec_adapter env derive ScriptAdapter,
     generateAlacrittyYaml = spec_adapter env derive YamlAdapter,
     generateKittyConfig = spec_adapter env derive FlatAdapter,
     generateWindowsTerminalJson = spec_adapter env derive JsonSchemeAdapter\<rparr>"

text \<open>
  Modelled from the spec: an instance of the derivation rule the specification leaves
  open (the adapters' files are missing), for the examples; no preset exercises it, since
  every preset has a palette.
\<close>

definition example_derive :: "string \<Rightarrow> string \<Rightarrow> string \<Rightarrow> ANSI16" where
  "example_derive bg fg ac = \<lparr>
     black = bg, red = ac, green = ac, yellow = ac, blue = ac, purple = ac, cyan = ac, white = fg,
     brightBlack = bg, brightRed = ac, brightGreen = ac, brightYellow = ac, brightBlue = ac,
     brightPurple = ac, brightCyan = ac, brightWhite = fg\<rparr>"

text \<open>Two environments of a call, for the examples: they differ in every field.\<close>

definition morning :: environment where
  "morning = \<lparr>clock = 1769760000000, random_values = [1 / 4, 3 / 4],
     env_variables = [(''LANG'', ''C'')], system_locale = ''en-US''\<rparr>"


text \<open>
  On ASCII text JavaScript's \<open>toLowerCase\<close> maps \<open>A\<close> to \<open>Z\<close> to \<open>a\<close> to \<open>z\<close> and keeps every
  other character, and \<open>toUpperCase\<close> is the converse. These two functions are that
  mapping; they stand for the runtime's in the examples only, whose texts are all ASCII.
\<close>

definition ascii_toLowerCase :: "string \<Rightarrow> string" where
  "ascii_toLowerCase s =
     map (\<lambda>c. case map_of (zip ''ABCDEFGHIJKLMNOPQRSTUVWXYZ'' ''abcdefghijklmnopqrstuvwxyz'') c of
                 None \<Rightarrow> c | Some l \<Rightarrow> l) s"

definition ascii_toUpperCase :: "string \<Rightarrow> string" where
  "ascii_toUpperCase s =
     map (\<lambda>c. case map_of (zip ''abcdefghijklmnopqrstuvwxyz'' ''ABCDEFGHIJKLMNOPQRSTUVWXYZ'') c of
                 None \<Rightarrow> c | Some u \<Rightarrow> u) s"

text \<open>
  A runtime for the examples: the ASCII case mappings, and \<open>path.join\<close> on a directory
  and a plain file name, which puts a slash between them.
\<close>

definition example_runtime :: runtime where
  "example_runtime = \<lparr>
     toLowerCase = ascii_toLowerCase,
     toUpperCase = ascii_toUpperCase,
     path_join = (\<lambda>a b. a @ ''/'' @ b),
     cwd = ''/home/user''\<rparr>"


section \<open>The skin model: \<open>createSkin\<close> and the preset catalog\<close>

lemmas preset_defs = phosphor_def amber_def lcd_def cyber_def terminal_def puncore_def

lemmas createSkin_defs = createSkin_def or_default_def truthy_string_def truthy_object_def

lemmas color_defs = ansi16_def matchesHexColor_def isHexDigit_def

lemma PRESET_SKINS_get_Own:
  "(k, skinFn) \<in> set PRESET_SKINS \<Longrightarrow> PRESET_SKINS_get k = Own skinFn"
  by (auto simp: PRESET_SKINS_get_def PRESET_SKINS_def)

lemma PRESET_SKINS_get_Undefined:
  "k \<notin> set (Object_keys PRESET_SKINS) \<Longrightarrow> k \<notin> set Object_prototype_keys \<Longrightarrow>
     PRESET_SKINS_get k = Undefined"
  by (simp add: PRESET_SKINS_get_def Object_keys_def map_of_eq_None_iff [THEN iffD2]
      split: option.splits)

lemma preset_key_nonempty: "(k, skinFn) \<in> set PRESET_SKINS \<Longrightarrow> k \<noteq> []"
  by (auto simp: PRESET_SKINS_def)

lemma phosphor_preset: "(''phosphor'', phosphor) \<in> set PRESET_SKINS"
  by (simp add: PRESET_SKINS_def)

lemma amber_preset: "(''amber'', amber) \<in> set PRESET_SKINS"
  by (simp add: PRESET_SKINS_def)

lemma lcd_preset: "(''lcd'', lcd) \<in> set PRESET_SKINS"
  by (simp add: PRESET_SKINS_def)

text \<open>
  Claim C3. The keys of the catalog are phosphor, amber, lcd, cyber, terminal and
  puncore, and for every one of them the lookup finds a producer whose skin is fully
  populated: a name, a non-empty sequence of effects, four scheme colours that match
  the pattern \<open>#RRGGBB\<close>, a palette whose 16 slots (8 base, 8 bright) all match it, and
  the performance block, which no preset sets, at its default.
\<close>

theorem preset_catalog_complete:
  "Object_keys PRESET_SKINS = [''phosphor'', ''amber'', ''lcd'', ''cyber'', ''terminal'', ''puncore'']
   \<and> (k \<in> set (Object_keys PRESET_SKINS) \<longrightarrow>
        (\<exists>skinFn p. PRESET_SKINS_get k = Own skinFn
           \<and> name (skinFn ()) \<noteq> []
           \<and> effects (skinFn ()) \<noteq> []
           \<and> list_all matchesHexColor
                [background (colors (skinFn ())), foreground (colors (skinFn ())),
                 accent (colors (skinFn ())), glow (colors (skinFn ()))]
           \<and> palette (colors (skinFn ())) = Some p
           \<and> length (ansi16 p) = 16
           \<and> list_all matchesHexColor (ansi16 p)
           \<and> performance (skinFn ()) =
               \<lparr>gpuAcceleration = True, targetFps = 60, quality = high\<rparr>))"
  by (auto simp: Object_keys_def PRESET_SKINS_get_def PRESET_SKINS_def preset_defs
      createSkin_defs color_defs)

theorem preset_catalog_complete_witness:
  "''amber'' \<in> set (Object_keys PRESET_SKINS)
   \<and> (\<exists>skinFn p. PRESET_SKINS_get ''amber'' = Own skinFn
         \<and> effects (skinFn ()) \<noteq> []
         \<and> palette (colors (skinFn ())) = Some p
         \<and> length (ansi16 p) = 16
         \<and> list_all matchesHexColor (ansi16 p)
         \<and> performance (skinFn ()) = \<lparr>gpuAcceleration = True, targetFps = 60, quality = high\<rparr>)"
proof -
  have h: "''amber'' \<in> set (Object_keys PRESET_SKINS)"
    by (simp add: Object_keys_def PRESET_SKINS_def)
  from preset_catalog_complete [of "''amber''"] h show ?thesis
    by blast
qed

text \<open>
  Claim C8. Every effect of every skin the catalog produces has its intensity in the
  closed interval from 0 to 1. (That \<open>params\<close> maps parameter names to numbers is the type
  of the field: a list of pairs of a name and a number.)
\<close>

theorem preset_intensity_bounds:
  "(k, skinFn) \<in> set PRESET_SKINS \<Longrightarrow> e \<in> set (effects (skinFn ())) \<Longrightarrow>
     0 \<le> intensity e \<and> intensity e \<le> 1"
  by (auto simp: PRESET_SKINS_def preset_defs createSkin_defs)

theorem preset_intensity_bounds_witness:
  "(''cyber'', cyber) \<in> set PRESET_SKINS
   \<and> \<lparr>type = noise, intensity = 0.05, params = [(''amount'', 0.02)]\<rparr> \<in> set (effects (cyber ()))
   \<and> 0 \<le> intensity \<lparr>type = noise, intensity = 0.05, params = [(''amount'', 0.02)]\<rparr>
   \<and> intensity \<lparr>type = noise, intensity = 0.05, params = [(''amount'', 0.02)]\<rparr> \<le> 1"
proof -
  have k: "(''cyber'', cyber) \<in> set PRESET_SKINS"
    by (simp add: PRESET_SKINS_def)
  have e: "\<lparr>type = noise, intensity = 0.05, params = [(''amount'', 0.02)]\<rparr> \<in> set (effects (cyber ()))"
    by (simp add: cyber_def createSkin_defs)
  from preset_intensity_bounds [OF k e] show ?thesis
    using k e by blast
qed

text \<open>
  Claim C4, amended. \<open>createSkin\<close> is total: it returns a skin for every partial input.
  An omitted name becomes \<open>Default\<close>, omitted effects the empty sequence, omitted colours
  the green-phosphor scheme and an omitted performance block
  \<open>{gpuAcceleration: true, targetFps: 60, quality: 'high'}\<close>; supplied effects, colours and
  performance are returned unchanged, and so is a supplied name that is not the empty
  string.
\<close>

theorem createSkin_fills_defaults:
  "(name_opt c = None \<longrightarrow> name (createSkin c) = ''Default'')
   \<and> (\<forall>n. name_opt c = Some n \<and> n \<noteq> [] \<longrightarrow> name (createSkin c) = n)
   \<and> effects (createSkin c) = (case effects_opt c of None \<Rightarrow> [] | Some e \<Rightarrow> e)
   \<and> colors (createSkin c) =
       (case colors_opt c of
          None \<Rightarrow> \<lparr>background = ''#0D0208'', foreground = ''#00FF41'', accent = ''#008F11'',
                    glow = ''#00FF41'', palette = None\<rparr>
        | Some x \<Rightarrow> x)
   \<and> performance (createSkin c) =
       (case performance_opt c of
          None \<Rightarrow> \<lparr>gpuAcceleration = True, targetFps = 60, quality = high\<rparr>
        | Some x \<Rightarrow> x)"
  by (simp add: createSkin_defs split: option.splits)

theorem createSkin_fills_defaults_witness:
  "name (createSkin \<lparr>name_opt = Some ''Mine'', effects_opt = None, colors_opt = None,
      performance_opt = Some \<lparr>gpuAcceleration = False, targetFps = 30, quality = low\<rparr>\<rparr>) = ''Mine''
   \<and> effects (createSkin \<lparr>name_opt = Some ''Mine'', effects_opt = None, colors_opt = None,
      performance_opt = Some \<lparr>gpuAcceleration = False, targetFps = 30, quality = low\<rparr>\<rparr>) = []
   \<and> performance (createSkin \<lparr>name_opt = Some ''Mine'', effects_opt = None, colors_opt = None,
      performance_opt = Some \<lparr>gpuAcceleration = False, targetFps = 30, quality = low\<rparr>\<rparr>)
       = \<lparr>gpuAcceleration = False, targetFps = 30, quality = low\<rparr>
   \<and> name (createSkin \<lparr>name_opt = None, effects_opt = None, colors_opt = None,
      performance_opt = None\<rparr>) = ''Default''"
  using createSkin_fills_defaults [of "\<lparr>name_opt = Some ''Mine'', effects_opt = None,
      colors_opt = None,
      performance_opt = Some \<lparr>gpuAcceleration = False, targetFps = 30, quality = low\<rparr>\<rparr>"]
    createSkin_fills_defaults [of "\<lparr>name_opt = None, effects_opt = None, colors_opt = None,
      performance_opt = None\<rparr>"]
  by simp

text \<open>
  The claim as first stated fails: a supplied name that is the empty string is not
  returned unchanged.
\<close>

theorem createSkin_empty_name_counterexample:
  "name_opt \<lparr>name_opt = Some [], effects_opt = None, colors_opt = None, performance_opt = None\<rparr>
     = Some []
   \<and> name (createSkin \<lparr>name_opt = Some [], effects_opt = None, colors_opt = None,
        performance_opt = None\<rparr>) \<noteq> []"
  by (simp add: createSkin_defs)

text \<open>
  Claim C9. When the name of the partial input is falsy (the empty string, or absent),
  \<open>createSkin\<close> returns the name \<open>Default\<close>: a supplied empty name is replaced.
\<close>

theorem createSkin_falsy_name:
  "name_opt c = Some [] \<or> name_opt c = None \<Longrightarrow> name (createSkin c) = ''Default''"
  by (auto simp: createSkin_defs)

theorem createSkin_falsy_name_witness:
  "name_opt \<lparr>name_opt = Some [], effects_opt = Some [], colors_opt = None, performance_opt = None\<rparr>
     = Some []
   \<and> name (createSkin \<lparr>name_opt = Some [], effects_opt = Some [], colors_opt = None,
        performance_opt = None\<rparr>) = ''Default''"
  using createSkin_falsy_name [of "\<lparr>name_opt = Some [], effects_opt = Some [], colors_opt = None,
        performance_opt = None\<rparr>"]
  by simp

section \<open>The adapters of the specification\<close>

subsection \<open>Texts and their lines\<close>

lemma startsWith_iff: "startsWith s p \<longleftrightarrow> (\<exists>q. s = p @ q)"
  by (induction s p rule: startsWith.induct) auto

lemma includes_str_iff: "includes_str s x \<longleftrightarrow> (\<exists>p q. s = p @ x @ q)"
proof (induction s)
  case Nil
  then show ?case by simp
next
  case (Cons c cs)
  show ?case
  proof
    assume "includes_str (c # cs) x"
    then consider "startsWith (c # cs) x" | "includes_str cs x" by auto
    then show "\<exists>p q. c # cs = p @ x @ q"
    proof cases
      case 1
      then obtain q where "c # cs = x @ q" by (auto simp: startsWith_iff)
      then have "c # cs = [] @ x @ q" by simp
      then show ?thesis by blast
    next
      case 2
      with Cons obtain p q where "cs = p @ x @ q" by blast
      then have "c # cs = (c # p) @ x @ q" by simp
      then show ?thesis by blast
    qed
  next
    assume "\<exists>p q. c # cs = p @ x @ q"
    then obtain p q where e: "c # cs = p @ x @ q" by blast
    show "includes_str (c # cs) x"
    proof (cases p)
      case Nil
      with e have "startsWith (c # cs) x" by (auto simp: startsWith_iff)
      then show ?thesis by simp
    next
      case (Cons d ds)
      with e have "cs = ds @ x @ q" by simp
      with Cons.IH have "includes_str cs x" by blast
      then show ?thesis by simp
    qed
  qed
qed

lemma unlines_append: "unlines (as @ bs) = unlines as @ unlines bs"
  by (simp add: unlines_def)

lemma includes_str_unlines:
  assumes "l \<in> set ls" and "includes_str l x"
  shows "includes_str (unlines ls) x"
proof -
  from assms(1) obtain as bs where ls: "ls = as @ l # bs"
    by (auto dest: split_list)
  from assms(2) obtain p q where l: "l = p @ x @ q"
    by (auto simp: includes_str_iff)
  have "unlines ls = (unlines as @ p) @ x @ (q @ [CHR 0x0A] @ unlines bs)"
    by (simp add: ls l unlines_def)
  then show ?thesis
    unfolding includes_str_iff by blast
qed

lemma fold_line:
  "CHR 0x0A \<notin> set l \<Longrightarrow>
     fold (\<lambda>c acc. if c = CHR 0x0A then [] # acc
                    else (case acc of [] \<Rightarrow> [[c]] | l # ls \<Rightarrow> (c # l) # ls)) l (cur # acc)
       = (rev l @ cur) # acc"
  by (induction l arbitrary: cur) auto

lemma fold_unlines:
  "\<forall>l \<in> set ls. CHR 0x0A \<notin> set l \<Longrightarrow>
     fold (\<lambda>c acc. if c = CHR 0x0A then [] # acc
                    else (case acc of [] \<Rightarrow> [[c]] | l # ls \<Rightarrow> (c # l) # ls)) (unlines ls) ([] # acc)
       = [] # rev (map rev ls) @ acc"
proof (induction ls arbitrary: acc)
  case Nil
  then show ?case by (simp add: unlines_def)
next
  case (Cons l ls)
  have "unlines (l # ls) = l @ CHR 0x0A # unlines ls"
    by (simp add: unlines_def)
  with Cons show ?case
    by (simp add: fold_line)
qed

lemma lines_of_unlines:
  "\<forall>l \<in> set ls. CHR 0x0A \<notin> set l \<Longrightarrow> lines_of (unlines ls) = ls @ [[]]"
  by (simp add: lines_of_def fold_unlines rev_map)


lemma endsWith_append: "endsWith (a @ b) b"
  by (simp add: endsWith_def)

lemma endsWith_unlines: "ls \<noteq> [] \<Longrightarrow> endsWith (unlines ls) (last ls @ [CHR 0x0A])"
proof -
  assume ne: "ls \<noteq> []"
  have "unlines (butlast ls @ [last ls]) = unlines (butlast ls) @ (last ls @ [CHR 0x0A])"
    by (simp add: unlines_def)
  moreover from ne have "butlast ls @ [last ls] = ls"
    by simp
  ultimately have "unlines ls = unlines (butlast ls) @ (last ls @ [CHR 0x0A])"
    by simp
  then show ?thesis
    by (simp only: endsWith_append)
qed

subsection \<open>Rendering\<close>

lemma validate_presets:
  "(k, skinFn) \<in> set PRESET_SKINS \<Longrightarrow> validate_colors (colors (skinFn ())) = Inr ()"
  by (auto simp: PRESET_SKINS_def preset_defs createSkin_defs validate_colors_def
      consumed_colors_def color_defs)

lemma render_presets:
  "(k, skinFn) \<in> set PRESET_SKINS \<Longrightarrow>
     render env derive A (skinFn ()) =
       Inr (unlines (emit A (background (colors (skinFn ()))) (foreground (colors (skinFn ())))
              (palette_slots derive (colors (skinFn ())))))"
  by (simp add: render_def render_lines_def validate_presets)



text \<open>
  Claim C2. For every adapter: when a colour it consumes does not match the pattern
  \<open>^#[0-9A-Fa-f]{6}$\<close>, the result is \<open>MalformedColorError\<close> and no text at all; when all
  the colours it consumes match, it returns a text and never the error.
\<close>

theorem render_raises_iff_malformed:
  "(c \<in> set (consumed_colors (colors s)) \<and> \<not> matchesHexColor c \<longrightarrow>
       render env derive A s = Inl MalformedColorError)
   \<and> ((\<forall>c \<in> set (consumed_colors (colors s)). matchesHexColor c) \<longrightarrow>
       (\<exists>text. render env derive A s = Inr text))"
  by (auto simp: render_def render_lines_def validate_colors_def list_all_iff)

theorem render_raises_iff_malformed_witness:
  "render morning example_derive FlatAdapter
       (createSkin \<lparr>name_opt = None, effects_opt = None,
          colors_opt = Some \<lparr>background = ''#0D0208'', foreground = ''green'', accent = ''#008F11'',
            glow = ''#00FF41'', palette = None\<rparr>,
          performance_opt = None\<rparr>) = Inl MalformedColorError
   \<and> (\<exists>text. render morning example_derive FlatAdapter (amber ()) = Inr text)"
proof -
  let ?bad = "createSkin \<lparr>name_opt = None, effects_opt = None,
          colors_opt = Some \<lparr>background = ''#0D0208'', foreground = ''green'', accent = ''#008F11'',
            glow = ''#00FF41'', palette = None\<rparr>,
          performance_opt = None\<rparr>"
  have c: "''green'' \<in> set (consumed_colors (colors ?bad)) \<and> \<not> matchesHexColor ''green''"
    by (simp add: createSkin_defs consumed_colors_def matchesHexColor_def)
  have v: "\<forall>c \<in> set (consumed_colors (colors (amber ()))). matchesHexColor c"
    by (simp add: amber_def createSkin_defs consumed_colors_def color_defs)
  from render_raises_iff_malformed [of "''green''" ?bad morning example_derive FlatAdapter] c
  have 1: "render morning example_derive FlatAdapter ?bad = Inl MalformedColorError"
    by blast
  from render_raises_iff_malformed [of "''green''" "amber ()" morning example_derive FlatAdapter] v
  have 2: "\<exists>text. render morning example_derive FlatAdapter (amber ()) = Inr text"
    by blast
  from 1 2 show ?thesis by blast
qed

text \<open>
  Claim C5. The phosphor preset rendered by the script (Lua-like, WezTerm) adapter is a
  text that contains the foreground value \<open>#00FF41\<close> and the background value \<open>#0D0208\<close>,
  has an \<open>ansi\<close> table with 16 entries, and closes with the trailer \<open>return config\<close>.
\<close>

theorem phosphor_lua_scenario:
  "\<exists>text. render env derive ScriptAdapter (phosphor ()) = Inr text
     \<and> includes_str text ''#00FF41''
     \<and> includes_str text ''#0D0208''
     \<and> length (block_entries ''    ansi = {'' is_lua_entry (lines_of text)) = 16
     \<and> endsWith text (''return config'' @ [CHR 0x0A])"
proof -
  let ?ls = "script_lines ''#0D0208'' ''#00FF41''
    [''#0D0208'', ''#FF3333'', ''#00FF41'', ''#CCFF00'', ''#008F11'', ''#FF00FF'', ''#00FFFF'',
     ''#00FF41'', ''#1A1A1A'', ''#FF6666'', ''#66FF66'', ''#FFFF66'', ''#66FF66'', ''#FF66FF'',
     ''#66FFFF'', ''#66FF66'']"
  have r: "render env derive ScriptAdapter (phosphor ()) = Inr (unlines ?ls)"
    by (simp add: render_presets [OF phosphor_preset] emit_def palette_slots_def)
       (simp add: phosphor_def createSkin_defs ansi16_def)
  have n: "\<forall>l \<in> set ?ls. CHR 0x0A \<notin> set l"
    by (simp add: script_lines_def lua_field_def lua_entry_def)
  have fg: "includes_str (unlines ?ls) ''#00FF41''"
    by (rule includes_str_unlines [where l = "lua_field ''foreground'' ''#00FF41''"])
       (simp_all add: script_lines_def lua_field_def)
  have bg: "includes_str (unlines ?ls) ''#0D0208''"
    by (rule includes_str_unlines [where l = "lua_field ''background'' ''#0D0208''"])
       (simp_all add: script_lines_def lua_field_def)
  have a: "length (block_entries ''    ansi = {'' is_lua_entry (?ls @ [[]])) = 16"
    by (simp add: script_lines_def block_entries_def is_lua_entry_def lua_field_def lua_entry_def)
  have "?ls \<noteq> []" and "last ?ls = ''return config''"
    by (simp_all add: script_lines_def)
  with endsWith_unlines [of ?ls] have t: "endsWith (unlines ?ls) (''return config'' @ [CHR 0x0A])"
    by simp
  from r fg bg a t show ?thesis
    by (simp add: lines_of_unlines [OF n])
qed

text \<open>
  Claim C6. The amber preset rendered by the YAML-like (Alacritty) adapter is a text with
  a top-level key \<open>colors:\<close>, a nested key \<open>primary:\<close> that holds \<open>background: '#1A0F00'\<close>,
  and a nested key \<open>bright:\<close> with 8 entries.
\<close>

theorem amber_yaml_scenario:
  "\<exists>text. render env derive YamlAdapter (amber ()) = Inr text
     \<and> ''colors:'' \<in> set (lines_of text)
     \<and> (''    background: '' @ [CHR 0x27] @ ''#1A0F00'' @ [CHR 0x27])
          \<in> set (block_entries ''  primary:'' is_yaml_entry (lines_of text))
     \<and> length (block_entries ''  bright:'' is_yaml_entry (lines_of text)) = 8"
proof -
  let ?ls = "yaml_lines ''#1A0F00'' ''#FFB000''
    [''#1A0F00'', ''#FF6600'', ''#FFB000'', ''#FFCC00'', ''#994400'', ''#FF8800'', ''#FFAA00'',
     ''#FFB000'', ''#332200'', ''#FF8800'', ''#FFCD00'', ''#FFDD66'', ''#AA6600'', ''#FF9900'',
     ''#FFDD88'', ''#FFEE99'']"
  have r: "render env derive YamlAdapter (amber ()) = Inr (unlines ?ls)"
    by (simp add: render_presets [OF amber_preset] emit_def palette_slots_def)
       (simp add: amber_def createSkin_defs ansi16_def)
  have n: "\<forall>l \<in> set ?ls. CHR 0x0A \<notin> set l"
    by (simp add: yaml_lines_def yaml_names_def yaml_entry_def)
  have c: "''colors:'' \<in> set (?ls @ [[]])"
    by (simp add: yaml_lines_def)
  have p: "(''    background: '' @ [CHR 0x27] @ ''#1A0F00'' @ [CHR 0x27])
          \<in> set (block_entries ''  primary:'' is_yaml_entry (?ls @ [[]]))"
    by (simp add: yaml_lines_def yaml_names_def yaml_entry_def block_entries_def is_yaml_entry_def)
  have b: "length (block_entries ''  bright:'' is_yaml_entry (?ls @ [[]])) = 8"
    by (simp add: yaml_lines_def yaml_names_def yaml_entry_def block_entries_def is_yaml_entry_def)
  show ?thesis
  proof (intro exI conjI)
    show "render env derive YamlAdapter (amber ()) = Inr (unlines ?ls)"
      by (rule r)
  qed (simp_all only: lines_of_unlines [OF n] c p b)
qed

section \<open>The command line\<close>

lemma includes_str_append: "includes_str (a @ b @ c) b"
  unfolding includes_str_iff by blast

lemma invalid_terminal_text:
  "error_text_contains ''Invalid terminal'' (Inr (invalid_terminal t))"
  using includes_str_append [of "cross_mark @ '' ''" "''Invalid terminal''" "'': '' @ t"]
  by (simp add: error_text_contains_def invalid_terminal_def)

lemma unknown_skin_text:
  "error_text_contains ''Unknown skin'' (Inr (unknown_skin k))"
  using includes_str_append [of "cross_mark @ '' ''" "''Unknown skin''" "'': '' @ k"]
  by (simp add: error_text_contains_def unknown_skin_def)

lemma rejections_exit:
  "exits_nonzero (Inr (invalid_terminal t))" "exits_nonzero (Inr (unknown_skin k))"
  by (simp_all add: exits_nonzero_def invalid_terminal_def unknown_skin_def)

lemma messages_differ: "stderr (invalid_terminal t) \<noteq> stderr (unknown_skin k)"
  by (simp add: invalid_terminal_def unknown_skin_def)

lemma generate_invalid_terminal:
  "toLowerCase rt t \<notin> set VALID_TERMINALS \<Longrightarrow>
     generate rt ad t k opts = Inr (invalid_terminal t)"
  by (simp add: generate_def)

lemma apply_invalid_terminal:
  "toLowerCase rt t \<notin> set VALID_TERMINALS \<Longrightarrow>
     apply_skin rt ad t k opts = Inr (invalid_terminal t)"
  by (simp add: apply_skin_def)

lemma generate_unknown_skin:
  "toLowerCase rt t \<in> set VALID_TERMINALS \<Longrightarrow> PRESET_SKINS_get k = Undefined \<Longrightarrow>
     generate rt ad t k opts = Inr (unknown_skin k)"
  by (simp add: generate_def)

lemma preview_unknown_skin:
  "k \<noteq> [] \<Longrightarrow> PRESET_SKINS_get k = Undefined \<Longrightarrow>
     preview rt ad (Some k) opts = Inr (unknown_skin k)"
  by (simp add: preview_def truthy_def)

text \<open>
  With a valid target and a preset, \<open>generate\<close> calls the adapter the target selects, and
  an exception of that adapter ends the command.
\<close>

lemma generate_selected_adapter_raises:
  assumes "toLowerCase rt t \<in> set VALID_TERMINALS" and "(k, skinFn) \<in> set PRESET_SKINS"
    and "(if toLowerCase rt t = ''wezterm'' then generateWezTermLua ad (Skin (skinFn ()))
          else if toLowerCase rt t = ''alacritty'' then generateAlacrittyYaml ad (Skin (skinFn ()))
          else if toLowerCase rt t = ''windows-terminal''
            then generateWindowsTerminalJson ad (Skin (skinFn ()))
          else generateKittyConfig ad (Skin (skinFn ()))) = Inl e"
  shows "generate rt ad t k opts = Inl e"
  using assms by (simp add: generate_def PRESET_SKINS_get_Own call_member_def Let_def)

text \<open>
  A key that names a member inherited from \<open>Object.prototype\<close> is found by the property
  read and is truthy, so the guard \<open>!skinFn\<close> lets it pass and no \<open>Unknown skin\<close> is
  printed: \<open>preview\<close> ends in a \<open>TypeError\<close>, and \<open>generate\<close> hands what the member
  returns to the adapter.
\<close>

lemma preview_inherited_key:
  "preview rt ad (Some ''constructor'') opts = Inl TypeError"
  by (simp add: preview_def truthy_def PRESET_SKINS_get_def PRESET_SKINS_def
      Object_prototype_keys_def call_member_def)

lemma generate_inherited_key:
  "toLowerCase rt t = ''kitty'' \<Longrightarrow> generateKittyConfig ad EmptyObject = Inr config \<Longrightarrow>
     generate rt ad t ''constructor'' \<lparr>opt_terminal = None, opt_output = None, opt_dryRun = False\<rparr>
       = Inr \<lparr>stdout = [config], stderr = [], files = [], exit_code = 0\<rparr>"
  by (simp add: generate_def truthy_def PRESET_SKINS_get_def PRESET_SKINS_def VALID_TERMINALS_def
      Object_prototype_keys_def call_member_def)

lemma unlines_Cons: "unlines (l # ls) = l @ CHR 0x0A # unlines ls"
  by (simp add: unlines_def)

lemma spec_adapter_presets:
  "(k, skinFn) \<in> set PRESET_SKINS \<Longrightarrow>
     spec_adapter env derive A (Skin (skinFn ())) =
       Inr (unlines (emit A (background (colors (skinFn ()))) (foreground (colors (skinFn ())))
              (palette_slots derive (colors (skinFn ())))))"
  by (simp add: spec_adapter_def render_presets)

lemma example_lower:
  "toLowerCase example_runtime ''xterm'' = ''xterm''"
  "toLowerCase example_runtime ''WezTerm'' = ''wezterm''"
  "toLowerCase example_runtime ''alacritty'' = ''alacritty''"
  "toLowerCase example_runtime ''Windows-Terminal'' = ''windows-terminal''"
  "toLowerCase example_runtime ''Kitty'' = ''kitty''"
  "toLowerCase example_runtime ''Konsole'' = ''konsole''"
  "toLowerCase example_runtime [] = []"
  by (simp_all add: example_runtime_def ascii_toLowerCase_def)

text \<open>
  Claim C7, amended. The \<open>generate\<close> and \<open>apply\<close> commands reject a target key whose
  lowercase form is not one of the four valid terminals, before they look at the preset
  key: exit code 1 and the error text \<open>Invalid terminal\<close>. The \<open>generate\<close> command with a
  valid target, and the \<open>preview\<close> command with a preset key that is not empty, reject a
  preset key that names no property of the catalog object: exit code 1 and the error text
  \<open>Unknown skin\<close>. The two error messages are never the same. An exception of the
  adapter that the target selects, such as a colour-format error, is caught nowhere:
  \<open>generate\<close> ends in that exception, with neither message.
\<close>

theorem cli_rejections:
  "(toLowerCase rt t \<notin> set VALID_TERMINALS \<longrightarrow>
      generate rt ad t k opts = Inr (invalid_terminal t)
      \<and> apply_skin rt ad t k opts = Inr (invalid_terminal t))
   \<and> (toLowerCase rt t \<in> set VALID_TERMINALS
        \<and> k \<notin> set (Object_keys PRESET_SKINS) \<and> k \<notin> set Object_prototype_keys \<longrightarrow>
      generate rt ad t k opts = Inr (unknown_skin k))
   \<and> (k \<noteq> [] \<and> k \<notin> set (Object_keys PRESET_SKINS) \<and> k \<notin> set Object_prototype_keys \<longrightarrow>
      preview rt ad (Some k) opts = Inr (unknown_skin k))
   \<and> (toLowerCase rt t = ''wezterm'' \<and> (k, skinFn) \<in> set PRESET_SKINS
        \<and> generateWezTermLua ad (Skin (skinFn ())) = Inl e \<longrightarrow>
      generate rt ad t k opts = Inl e)
   \<and> (toLowerCase rt t = ''alacritty'' \<and> (k, skinFn) \<in> set PRESET_SKINS
        \<and> generateAlacrittyYaml ad (Skin (skinFn ())) = Inl e \<longrightarrow>
      generate rt ad t k opts = Inl e)
   \<and> (toLowerCase rt t = ''windows-terminal'' \<and> (k, skinFn) \<in> set PRESET_SKINS
        \<and> generateWindowsTerminalJson ad (Skin (skinFn ())) = Inl e \<longrightarrow>
      generate rt ad t k opts = Inl e)
   \<and> (toLowerCase rt t = ''kitty'' \<and> (k, skinFn) \<in> set PRESET_SKINS
        \<and> generateKittyConfig ad (Skin (skinFn ())) = Inl e \<longrightarrow>
      generate rt ad t k opts = Inl e)
   \<and> exits_nonzero (Inr (invalid_terminal t))
   \<and> error_text_contains ''Invalid terminal'' (Inr (invalid_terminal t))
   \<and> exits_nonzero (Inr (unknown_skin k))
   \<and> error_text_contains ''Unknown skin'' (Inr (unknown_skin k))
   \<and> stderr (invalid_terminal t) \<noteq> stderr (unknown_skin k)"
proof (intro conjI impI)
  assume "toLowerCase rt t = ''wezterm'' \<and> (k, skinFn) \<in> set PRESET_SKINS
        \<and> generateWezTermLua ad (Skin (skinFn ())) = Inl e"
  then show "generate rt ad t k opts = Inl e"
    by (intro generate_selected_adapter_raises [of rt t k skinFn]) (simp_all add: VALID_TERMINALS_def)
next
  assume "toLowerCase rt t = ''alacritty'' \<and> (k, skinFn) \<in> set PRESET_SKINS
        \<and> generateAlacrittyYaml ad (Skin (skinFn ())) = Inl e"
  then show "generate rt ad t k opts = Inl e"
    by (intro generate_selected_adapter_raises [of rt t k skinFn]) (simp_all add: VALID_TERMINALS_def)
next
  assume "toLowerCase rt t = ''windows-terminal'' \<and> (k, skinFn) \<in> set PRESET_SKINS
        \<and> generateWindowsTerminalJson ad (Skin (skinFn ())) = Inl e"
  then show "generate rt ad t k opts = Inl e"
    by (intro generate_selected_adapter_raises [of rt t k skinFn]) (simp_all add: VALID_TERMINALS_def)
next
  assume "toLowerCase rt t = ''kitty'' \<and> (k, skinFn) \<in> set PRESET_SKINS
        \<and> generateKittyConfig ad (Skin (skinFn ())) = Inl e"
  then show "generate rt ad t k opts = Inl e"
    by (intro generate_selected_adapter_raises [of rt t k skinFn]) (simp_all add: VALID_TERMINALS_def)
qed (simp_all add: generate_invalid_terminal apply_invalid_terminal generate_unknown_skin
      preview_unknown_skin PRESET_SKINS_get_Undefined invalid_terminal_text unknown_skin_text
      rejections_exit messages_differ)

theorem cli_rejections_witness:
  "generate example_runtime (spec_adapters morning example_derive) ''xterm'' ''phosphor''
       \<lparr>opt_terminal = None, opt_output = None, opt_dryRun = False\<rparr>
     = Inr (invalid_terminal ''xterm'')
   \<and> apply_skin example_runtime (spec_adapters morning example_derive) ''xterm'' ''phosphor''
       \<lparr>opt_terminal = None, opt_output = None, opt_dryRun = False\<rparr>
     = Inr (invalid_terminal ''xterm'')
   \<and> generate example_runtime (spec_adapters morning example_derive) ''Kitty'' ''matrix''
       \<lparr>opt_terminal = None, opt_output = None, opt_dryRun = False\<rparr>
     = Inr (unknown_skin ''matrix'')
   \<and> preview example_runtime (spec_adapters morning example_derive) (Some ''matrix'')
       \<lparr>opt_terminal = None, opt_output = None, opt_dryRun = False\<rparr>
     = Inr (unknown_skin ''matrix'')
   \<and> generate example_runtime
       ((spec_adapters morning example_derive)
          \<lparr>generateWezTermLua := (\<lambda>v. Inl (CoreError MalformedColorError))\<rparr>)
       ''WezTerm'' ''amber'' \<lparr>opt_terminal = None, opt_output = None, opt_dryRun = False\<rparr>
     = Inl (CoreError MalformedColorError)
   \<and> generate example_runtime
       ((spec_adapters morning example_derive)
          \<lparr>generateAlacrittyYaml := (\<lambda>v. Inl (CoreError MalformedColorError))\<rparr>)
       ''alacritty'' ''amber'' \<lparr>opt_terminal = None, opt_output = None, opt_dryRun = False\<rparr>
     = Inl (CoreError MalformedColorError)
   \<and> generate example_runtime
       ((spec_adapters morning example_derive)
          \<lparr>generateWindowsTerminalJson := (\<lambda>v. Inl (CoreError MalformedColorError))\<rparr>)
       ''Windows-Terminal'' ''amber'' \<lparr>opt_terminal = None, opt_output = None, opt_dryRun = False\<rparr>
     = Inl (CoreError MalformedColorError)
   \<and> generate example_runtime
       ((spec_adapters morning example_derive)
          \<lparr>generateKittyConfig := (\<lambda>v. Inl (CoreError MalformedColorError))\<rparr>)
       ''Kitty'' ''amber'' \<lparr>opt_terminal = None, opt_output = None, opt_dryRun = False\<rparr>
     = Inl (CoreError MalformedColorError)
   \<and> error_text_contains ''Invalid terminal'' (Inr (invalid_terminal ''xterm''))
   \<and> error_text_contains ''Unknown skin'' (Inr (unknown_skin ''matrix''))"
proof -
  let ?rt = example_runtime
  let ?ad = "spec_adapters morning example_derive"
  let ?raise = "\<lambda>v :: js_value. (Inl (CoreError MalformedColorError) :: exception + string)"
  let ?opts = "\<lparr>opt_terminal = None, opt_output = None, opt_dryRun = False\<rparr>"
  have x: "toLowerCase ?rt ''xterm'' \<notin> set VALID_TERMINALS"
    by (simp add: example_lower VALID_TERMINALS_def)
  have k: "toLowerCase ?rt ''Kitty'' \<in> set VALID_TERMINALS"
    by (simp add: example_lower VALID_TERMINALS_def)
  have m: "''matrix'' \<noteq> [] \<and> ''matrix'' \<notin> set (Object_keys PRESET_SKINS)
      \<and> ''matrix'' \<notin> set Object_prototype_keys"
    by (simp add: Object_keys_def PRESET_SKINS_def Object_prototype_keys_def)
  from cli_rejections [of ?rt "''xterm''" ?ad "''phosphor''" ?opts] x
  have 1: "generate ?rt ?ad ''xterm'' ''phosphor'' ?opts = Inr (invalid_terminal ''xterm'')
      \<and> apply_skin ?rt ?ad ''xterm'' ''phosphor'' ?opts = Inr (invalid_terminal ''xterm'')
      \<and> error_text_contains ''Invalid terminal'' (Inr (invalid_terminal ''xterm''))"
    by blast
  from cli_rejections [of ?rt "''Kitty''" ?ad "''matrix''" ?opts] k m
  have 2: "generate ?rt ?ad ''Kitty'' ''matrix'' ?opts = Inr (unknown_skin ''matrix'')
      \<and> preview ?rt ?ad (Some ''matrix'') ?opts = Inr (unknown_skin ''matrix'')
      \<and> error_text_contains ''Unknown skin'' (Inr (unknown_skin ''matrix''))"
    by blast
  from cli_rejections [of ?rt "''WezTerm''" "?ad\<lparr>generateWezTermLua := ?raise\<rparr>" "''amber''" ?opts
      amber "CoreError MalformedColorError"] amber_preset
  have 3: "generate ?rt (?ad\<lparr>generateWezTermLua := ?raise\<rparr>) ''WezTerm'' ''amber'' ?opts
      = Inl (CoreError MalformedColorError)"
    by (simp add: example_lower)
  from cli_rejections [of ?rt "''alacritty''" "?ad\<lparr>generateAlacrittyYaml := ?raise\<rparr>" "''amber''"
      ?opts amber "CoreError MalformedColorError"] amber_preset
  have 4: "generate ?rt (?ad\<lparr>generateAlacrittyYaml := ?raise\<rparr>) ''alacritty'' ''amber'' ?opts
      = Inl (CoreError MalformedColorError)"
    by (simp add: example_lower)
  from cli_rejections [of ?rt "''Windows-Terminal''" "?ad\<lparr>generateWindowsTerminalJson := ?raise\<rparr>"
      "''amber''" ?opts amber "CoreError MalformedColorError"] amber_preset
  have 5: "generate ?rt (?ad\<lparr>generateWindowsTerminalJson := ?raise\<rparr>) ''Windows-Terminal''
      ''amber'' ?opts = Inl (CoreError MalformedColorError)"
    by (simp add: example_lower)
  from cli_rejections [of ?rt "''Kitty''" "?ad\<lparr>generateKittyConfig := ?raise\<rparr>" "''amber''" ?opts
      amber "CoreError MalformedColorError"] amber_preset
  have 6: "generate ?rt (?ad\<lparr>generateKittyConfig := ?raise\<rparr>) ''Kitty'' ''amber'' ?opts
      = Inl (CoreError MalformedColorError)"
    by (simp add: example_lower)
  from 1 2 3 4 5 6 show ?thesis
    by blast
qed

text \<open>
  The claim as first stated fails on \<open>generate xterm matrix\<close>: the invocation takes an
  unknown preset key, and its error text does not contain \<open>Unknown skin\<close>, because the
  target key is rejected first.
\<close>

theorem cli_rejections_counterexample:
  "''matrix'' \<notin> set (Object_keys PRESET_SKINS)
   \<and> \<not> error_text_contains ''Unknown skin''
          (generate example_runtime (spec_adapters morning example_derive) ''xterm'' ''matrix''
             \<lparr>opt_terminal = None, opt_output = None, opt_dryRun = False\<rparr>)"
proof -
  have x: "toLowerCase example_runtime ''xterm'' \<notin> set VALID_TERMINALS"
    by (simp add: example_lower VALID_TERMINALS_def)
  have m: "''matrix'' \<notin> set (Object_keys PRESET_SKINS)"
    by (simp add: Object_keys_def PRESET_SKINS_def)
  have u: "\<not> error_text_contains ''Unknown skin''
          (generate example_runtime (spec_adapters morning example_derive) ''xterm'' ''matrix''
             \<lparr>opt_terminal = None, opt_output = None, opt_dryRun = False\<rparr>)"
    by (simp add: generate_invalid_terminal [OF x] error_text_contains_def invalid_terminal_def
        cross_mark_def)
  from m u show ?thesis
    by simp
qed

text \<open>
  Claim C10, amended. For every preset skin and every \<open>--terminal\<close> value that is not
  empty and whose lowercase form is not \<open>wezterm\<close>, \<open>alacritty\<close> or \<open>windows-terminal\<close>,
  the \<open>preview\<close> command does not reject the target: it hands the skin to the Kitty
  adapter, prints the summary, the preview header and the text the adapter returns, and
  ends with exit code 0 and no error text (an exception of the adapter is not caught).
  There is no check against the list of valid terminals.
\<close>

theorem preview_falls_through_to_kitty:
  "(k, skinFn) \<in> set PRESET_SKINS \<Longrightarrow> t \<noteq> [] \<Longrightarrow>
   toLowerCase rt t \<notin> set [''wezterm'', ''alacritty'', ''windows-terminal''] \<Longrightarrow>
     preview rt ad (Some k) (opts\<lparr>opt_terminal := Some t\<rparr>) =
       (case generateKittyConfig ad (Skin (skinFn ())) of
          Inl e \<Rightarrow> Inl e
        | Inr config \<Rightarrow> Inr \<lparr>
            stdout = preview_summary k (skinFn ())
              @ [[CHR 0x0A] @ page_facing_up @ '' '' @ toUpperCase rt t @ '' Preview:'',
                 concat (replicate 40 box_line), config, []],
            stderr = [],
            files = [],
            exit_code = 0\<rparr>)"
  by (simp add: preview_def truthy_def preset_key_nonempty PRESET_SKINS_get_Own call_member_def
      Let_def split: sum.splits)

theorem preview_falls_through_to_kitty_witness:
  "(''lcd'', lcd) \<in> set PRESET_SKINS
   \<and> ''Konsole'' \<noteq> []
   \<and> toLowerCase example_runtime ''Konsole'' \<notin> set [''wezterm'', ''alacritty'', ''windows-terminal'']
   \<and> \<not> isl (generateKittyConfig (spec_adapters morning example_derive) (Skin (lcd ())))
   \<and> prints (projr (generateKittyConfig (spec_adapters morning example_derive) (Skin (lcd ()))))
        (preview example_runtime (spec_adapters morning example_derive) (Some ''lcd'')
           \<lparr>opt_terminal = Some ''Konsole'', opt_output = None, opt_dryRun = False\<rparr>)
   \<and> \<not> exits_nonzero
        (preview example_runtime (spec_adapters morning example_derive) (Some ''lcd'')
           \<lparr>opt_terminal = Some ''Konsole'', opt_output = None, opt_dryRun = False\<rparr>)"
proof -
  have t: "''Konsole'' \<noteq> []"
    by simp
  have l: "toLowerCase example_runtime ''Konsole''
      \<notin> set [''wezterm'', ''alacritty'', ''windows-terminal'']"
    by (simp add: example_lower)
  obtain cfg where r:
    "generateKittyConfig (spec_adapters morning example_derive) (Skin (lcd ())) = Inr cfg"
    by (simp add: spec_adapters_def spec_adapter_presets [OF lcd_preset])
  from preview_falls_through_to_kitty [OF lcd_preset t l,
      of "spec_adapters morning example_derive"
         "\<lparr>opt_terminal = None, opt_output = None, opt_dryRun = False\<rparr>"]
  show ?thesis
    using lcd_preset l r by (simp add: prints_def exits_nonzero_def)
qed

text \<open>
  The claim as first stated fails for the empty value: \<open>preview phosphor --terminal ""\<close>
  prints the summary only, and not the output of the Kitty adapter.
\<close>

theorem preview_empty_terminal_counterexample:
  "toLowerCase example_runtime [] \<notin> set [''wezterm'', ''alacritty'', ''windows-terminal'']
   \<and> \<not> isl (generateKittyConfig (spec_adapters morning example_derive) (Skin (phosphor ())))
   \<and> \<not> prints (projr (generateKittyConfig (spec_adapters morning example_derive)
                        (Skin (phosphor ()))))
          (preview example_runtime (spec_adapters morning example_derive) (Some ''phosphor'')
             \<lparr>opt_terminal = Some [], opt_output = None, opt_dryRun = False\<rparr>)"
proof -
  have g: "PRESET_SKINS_get ''phosphor'' = Own phosphor"
    by (rule PRESET_SKINS_get_Own [OF phosphor_preset])
  have p: "preview example_runtime (spec_adapters morning example_derive) (Some ''phosphor'')
             \<lparr>opt_terminal = Some [], opt_output = None, opt_dryRun = False\<rparr>
           = Inr \<lparr>stdout = preview_summary ''phosphor'' (phosphor ()) @ [[]], stderr = [],
                  files = [], exit_code = 0\<rparr>"
    by (simp add: g preview_def truthy_def call_member_def)
  obtain rest where r:
    "generateKittyConfig (spec_adapters morning example_derive) (Skin (phosphor ()))
       = Inr (''background '' @ rest)"
    by (simp add: spec_adapters_def spec_adapter_presets [OF phosphor_preset] emit_def
        flat_lines_def flat_entry_def unlines_Cons)
  show ?thesis
    by (simp add: p r prints_def example_lower preview_summary_def)
qed

end
